theory Spec2Isabelle
  imports Complex_Main
begin

section \<open>Common data\<close>

text \<open>
  The two front ends (\<^verbatim>\<open>sentiment.py\<close>, the dashboard, and \<^verbatim>\<open>telegram_bot.py\<close>, the bot)
  are embedded side by side.  Python exceptions are values of \<open>py_error\<close>; a function that
  may raise returns \<open>py_error + 'a\<close>.  Model scores are Python floats; they are embedded as
  real numbers, so arithmetic is exact.  Calls to the external collaborators (the two
  news providers and the sentiment model) are recorded in a trace of \<open>call\<close> values that every
  function returns beside its result.
\<close>

datatype py_error = ValueError | KeyError | IndexError | ZeroDivisionError | ExternalError

datatype call =
    SymbolLookup string
  | CompanyNews string nat
  | GetEverything string nat nat
  | Classify "string list"

subsection \<open>Strings\<close>

text \<open>\<^verbatim>\<open>str.upper()\<close> and \<^verbatim>\<open>str.lower()\<close> on ASCII text, and the substring test \<^verbatim>\<open>w in s\<close>.\<close>

definition ascii_lowercase :: string where
  "ascii_lowercase = ''abcdefghijklmnopqrstuvwxyz''"

definition ascii_uppercase :: string where
  "ascii_uppercase = ''ABCDEFGHIJKLMNOPQRSTUVWXYZ''"

definition upper_char :: "char \<Rightarrow> char" where
  "upper_char c =
     (case map_of (zip ascii_lowercase ascii_uppercase) c of None \<Rightarrow> c | Some u \<Rightarrow> u)"

definition upper :: "string \<Rightarrow> string" where
  "upper s = map upper_char s"

definition lower_char :: "char \<Rightarrow> char" where
  "lower_char c =
     (case map_of (zip ascii_uppercase ascii_lowercase) c of None \<Rightarrow> c | Some l \<Rightarrow> l)"

definition lower :: "string \<Rightarrow> string" where
  "lower s = map lower_char s"

fun starts_with :: "string \<Rightarrow> string \<Rightarrow> bool" where
  "starts_with [] s = True"
| "starts_with (c # w) [] = False"
| "starts_with (c # w) (d # s) = (c = d \<and> starts_with w s)"

fun contains :: "string \<Rightarrow> string \<Rightarrow> bool" where
  "contains w [] = (w = [])"
| "contains w (d # s) = (starts_with w (d # s) \<or> contains w s)"

section \<open>Sentiment classifier adapter\<close>

text \<open>
  One entry of the model's output is either a dict \<^verbatim>\<open>{'label': ..., 'score': ...}\<close> or a
  list of such dicts, one per class (\<^verbatim>\<open>isinstance(result, list)\<close>).  The model handle maps
  the headlines to such entries or raises.
\<close>

record scored =
  label :: string
  score :: real

datatype model_result = Single scored | Scores "scored list"

type_synonym pipeline = "string list \<Rightarrow> py_error + model_result list"

text \<open>
  \<^verbatim>\<open>max(result, key=lambda x: x['score'])\<close>: the first element of greatest key; on an empty
  list \<^verbatim>\<open>max\<close> raises ValueError.
\<close>

definition better :: "scored \<Rightarrow> scored \<Rightarrow> scored" where
  "better best y = (if score best < score y then y else best)"

fun max_by_score :: "scored list \<Rightarrow> py_error + scored" where
  "max_by_score [] = Inl ValueError"
| "max_by_score (x # xs) = Inr (foldl better x xs)"

definition label_mapping :: "(string \<times> string) list" where
  "label_mapping =
     [(''LABEL_0'', ''NEGATIVE''),
      (''LABEL_1'', ''NEUTRAL''),
      (''LABEL_2'', ''POSITIVE''),
      (''NEGATIVE'', ''NEGATIVE''),
      (''NEUTRAL'', ''NEUTRAL''),
      (''POSITIVE'', ''POSITIVE'')]"

text \<open>\<^verbatim>\<open>label_mapping.get(label, label)\<close>\<close>

definition mapped_label :: "string \<Rightarrow> string" where
  "mapped_label l = (case map_of label_mapping l of None \<Rightarrow> l | Some v \<Rightarrow> v)"

text \<open>The body of the loop over the model's results, the same text in both front ends.\<close>

definition process_result :: "model_result \<Rightarrow> py_error + scored" where
  "process_result result =
     (case (case result of Scores xs \<Rightarrow> max_by_score xs | Single r \<Rightarrow> Inr r) of
        Inl e \<Rightarrow> Inl e
      | Inr r \<Rightarrow> Inr \<lparr>label = mapped_label (upper (label r)), score = score r\<rparr>)"

text \<open>Dashboard, \<^verbatim>\<open>analyze_sentiment\<close>: an exception leaves the function.\<close>

fun processed_results :: "model_result list \<Rightarrow> py_error + scored list" where
  "processed_results [] = Inr []"
| "processed_results (result # results) =
     (case process_result result of
        Inl e \<Rightarrow> Inl e
      | Inr r \<Rightarrow> (case processed_results results of
                   Inl e \<Rightarrow> Inl e
                 | Inr rs \<Rightarrow> Inr (r # rs)))"

definition analyze_sentiment ::
    "pipeline \<Rightarrow> string list \<Rightarrow> (py_error + scored list) \<times> call list" where
  "analyze_sentiment sentiment_pipeline headlines =
     (if headlines = [] then (Inr [], [])
      else (case sentiment_pipeline headlines of
              Inl e \<Rightarrow> (Inl e, [Classify headlines])
            | Inr results \<Rightarrow> (processed_results results, [Classify headlines])))"

text \<open>
  Bot, \<^verbatim>\<open>FinancialSentimentBot.analyze_sentiment\<close>: the model handle may be \<^verbatim>\<open>None\<close>, and
  the whole body is inside \<^verbatim>\<open>try ... except Exception\<close>, which logs and returns \<^verbatim>\<open>[]\<close>.
\<close>

fun bot_processed_results :: "model_result list \<Rightarrow> scored list \<Rightarrow> py_error + scored list" where
  "bot_processed_results [] acc = Inr acc"
| "bot_processed_results (result # results) acc =
     (case process_result result of
        Inl e \<Rightarrow> Inl e
      | Inr r \<Rightarrow> bot_processed_results results (acc @ [r]))"

definition bot_analyze_sentiment ::
    "pipeline option \<Rightarrow> string list \<Rightarrow> scored list \<times> call list" where
  "bot_analyze_sentiment sentiment_pipeline texts =
     (case sentiment_pipeline of
        None \<Rightarrow> ([], [])
      | Some p \<Rightarrow>
          if texts = [] then ([], [])
          else (case p texts of
                  Inl e \<Rightarrow> ([], [Classify texts])
                | Inr results \<Rightarrow>
                    (case bot_processed_results results [] of
                       Inl e \<Rightarrow> ([], [Classify texts])
                     | Inr rs \<Rightarrow> (rs, [Classify texts]))))"

section \<open>Aggregator\<close>

text \<open>Bot, \<^verbatim>\<open>calculate_overall_sentiment\<close>: the returned dict as a record.\<close>

record overall =
  overall_sentiment :: string
  confidence :: real
  positive_count :: nat
  negative_count :: nat
  neutral_count :: nat
  total_articles :: nat

definition count_label :: "string \<Rightarrow> scored list \<Rightarrow> nat" where
  "count_label l rs = length (filter (\<lambda>r. label r = l) rs)"

definition calculate_overall_sentiment :: "scored list \<Rightarrow> overall" where
  "calculate_overall_sentiment sentiment_results =
     (if sentiment_results = [] then
        \<lparr>overall_sentiment = ''NEUTRAL'', confidence = 0,
         positive_count = 0, negative_count = 0, neutral_count = 0, total_articles = 0\<rparr>
      else
        let pos = count_label ''POSITIVE'' sentiment_results;
            neg = count_label ''NEGATIVE'' sentiment_results;
            neu = count_label ''NEUTRAL'' sentiment_results;
            total_n = length sentiment_results;
            verdict = (if neg < pos then ''POSITIVE''
                       else if pos < neg then ''NEGATIVE''
                       else ''NEUTRAL'');
            avg_confidence = sum_list (map score sentiment_results) / real total_n
        in \<lparr>overall_sentiment = verdict, confidence = avg_confidence,
            positive_count = pos, negative_count = neg, neutral_count = neu,
            total_articles = total_n\<rparr>)"

text \<open>
  Bot, \<^verbatim>\<open>analyze_command\<close>: the three percentages of the result message,
  \<^verbatim>\<open>count / total_articles * 100\<close>.  Python's \<^verbatim>\<open>/\<close> raises ZeroDivisionError on a zero divisor.
\<close>

definition truediv :: "real \<Rightarrow> real \<Rightarrow> py_error + real" where
  "truediv a b = (if b = 0 then Inl ZeroDivisionError else Inr (a / b))"

definition percentage :: "nat \<Rightarrow> nat \<Rightarrow> py_error + real" where
  "percentage n total_n =
     (case truediv (real n) (real total_n) of Inl e \<Rightarrow> Inl e | Inr q \<Rightarrow> Inr (q * 100))"

definition breakdown :: "overall \<Rightarrow> py_error + real \<times> real \<times> real" where
  "breakdown ov =
     (case percentage (positive_count ov) (total_articles ov) of
        Inl e \<Rightarrow> Inl e
      | Inr p \<Rightarrow>
          (case percentage (negative_count ov) (total_articles ov) of
             Inl e \<Rightarrow> Inl e
           | Inr n \<Rightarrow>
               (case percentage (neutral_count ov) (total_articles ov) of
                  Inl e \<Rightarrow> Inl e
                | Inr u \<Rightarrow> Inr (p, n, u))))"

text \<open>
  Bot, \<^verbatim>\<open>analyze_command\<close>: the frame of headline, sentiment and confidence, one row per
  index below \<^verbatim>\<open>min(len(articles), len(sentiment_results))\<close>, kept in fetch order.  A frame
  built from an empty list of records has no columns, so \<^verbatim>\<open>df['sentiment']\<close> raises
  KeyError there.  \<^verbatim>\<open>nlargest(1, 'confidence')\<close> keeps the first of equal values
  (pandas' default \<^verbatim>\<open>keep='first'\<close>), and \<^verbatim>\<open>.iloc[0]\<close> reads its only row.
\<close>

record row =
  headline :: string
  sentiment :: string
  row_confidence :: real

record article =
  title :: string
  description :: string
  url :: string
  publishedAt :: string
  source_name :: string

definition DataFrame :: "article list \<Rightarrow> scored list \<Rightarrow> row list" where
  "DataFrame articles sentiment_results =
     map (\<lambda>(a, r). \<lparr>headline = title a, sentiment = label r, row_confidence = score r\<rparr>)
       (zip articles sentiment_results)"

definition with_sentiment :: "string \<Rightarrow> row list \<Rightarrow> py_error + row list" where
  "with_sentiment l df =
     (if df = [] then Inl KeyError else Inr (filter (\<lambda>r. sentiment r = l) df))"

definition larger :: "row \<Rightarrow> row \<Rightarrow> row" where
  "larger best y = (if row_confidence best < row_confidence y then y else best)"

fun nlargest1 :: "row list \<Rightarrow> row list" where
  "nlargest1 [] = []"
| "nlargest1 (x # xs) = [foldl larger x xs]"

definition most_confident :: "string \<Rightarrow> row list \<Rightarrow> py_error + row option" where
  "most_confident l df =
     (case with_sentiment l df of
        Inl e \<Rightarrow> Inl e
      | Inr sub \<Rightarrow>
          if 0 < length sub then
            (case nlargest1 sub of [] \<Rightarrow> Inl IndexError | r # _ \<Rightarrow> Inr (Some r))
          else Inr None)"

text \<open>
  Bot, \<^verbatim>\<open>analyze_command\<close> from the fetched articles on: the early reply when nothing was
  fetched, classification, aggregation, the percentages of the message, the two exemplars.
  The handler's \<^verbatim>\<open>except Exception\<close> turns any exception into an error reply.
\<close>

datatype reply =
    NoArticles
  | ErrorReply py_error
  | Results overall "real \<times> real \<times> real" "row option" "row option"

definition analyze_articles ::
    "pipeline option \<Rightarrow> article list \<Rightarrow> reply \<times> call list" where
  "analyze_articles sentiment_pipeline articles =
     (if articles = [] then (NoArticles, [])
      else
        let headlines = map title articles;
            (sentiment_results, calls) = bot_analyze_sentiment sentiment_pipeline headlines;
            ov = calculate_overall_sentiment sentiment_results
        in (case breakdown ov of
              Inl e \<Rightarrow> (ErrorReply e, calls)
            | Inr pcts \<Rightarrow>
                let df = DataFrame articles sentiment_results
                in (case most_confident ''POSITIVE'' df of
                      Inl e \<Rightarrow> (ErrorReply e, calls)
                    | Inr most_positive \<Rightarrow>
                        (case most_confident ''NEGATIVE'' df of
                           Inl e \<Rightarrow> (ErrorReply e, calls)
                         | Inr most_negative \<Rightarrow>
                             (Results ov pcts most_positive most_negative, calls)))))"

text \<open>
  Dashboard, the overview of the main script (\<^verbatim>\<open>sentiment.py\<close>, the result loop and the
  lines under ``Calculate overall sentiment''): the sentiments are the labels in title case
  (\<^verbatim>\<open>label.title()\<close>), \<^verbatim>\<open>value_counts()\<close> counts each distinct sentiment, \<^verbatim>\<open>idxmax()\<close> reads the
  first entry of greatest count.  pandas lists the counts in descending order and leaves
  the order of equal counts to its sorting routine; that choice among the sentiments of
  greatest count is the parameter \<open>tie_break\<close>.  The confidence is the mean of the scores.
\<close>

definition is_cased :: "char \<Rightarrow> bool" where
  "is_cased c = (c \<in> set ascii_lowercase \<or> c \<in> set ascii_uppercase)"

fun title_from :: "bool \<Rightarrow> string \<Rightarrow> string" where
  "title_from previous_is_cased [] = []"
| "title_from previous_is_cased (c # s) =
     (if previous_is_cased then lower_char c else upper_char c) # title_from (is_cased c) s"

definition title_case :: "string \<Rightarrow> string" where
  "title_case s = title_from False s"

fun unique :: "string list \<Rightarrow> string list" where
  "unique [] = []"
| "unique (x # xs) = x # filter (\<lambda>y. y \<noteq> x) (unique xs)"

definition value_counts :: "string list \<Rightarrow> (string \<times> nat) list" where
  "value_counts xs = map (\<lambda>v. (v, count_list xs v)) (unique xs)"

definition greatest :: "(string \<times> nat) list \<Rightarrow> string list" where
  "greatest counts =
     map fst (filter (\<lambda>(v, n). list_all (\<lambda>(w, m). m \<le> n) counts) counts)"

definition idxmax :: "(string list \<Rightarrow> string) \<Rightarrow> (string \<times> nat) list \<Rightarrow> string" where
  "idxmax tie_break counts = tie_break (greatest counts)"

definition sentiment_overview ::
    "(string list \<Rightarrow> string) \<Rightarrow> scored list \<Rightarrow> string \<times> real" where
  "sentiment_overview tie_break sentiment_results =
     (let sentiments = map (\<lambda>result. title_case (label result)) sentiment_results;
          scores = map score sentiment_results;
          sentiment_counts = value_counts sentiments
      in if 0 < length sentiment_counts
         then (idxmax tie_break sentiment_counts, sum_list scores / real (length scores))
         else (''Neutral'', 0))"

section \<open>Symbol resolver and news fetcher\<close>

text \<open>
  The Finnhub client: \<^verbatim>\<open>symbol_lookup\<close> answers with the list under \<^verbatim>\<open>'result'\<close> (\<open>None\<close>
  for an empty answer or one without that key) or raises; \<^verbatim>\<open>company_news\<close> answers with the
  provider's articles for a symbol and a window of \<^verbatim>\<open>days_back\<close> days ending now, or raises.
  A field read with \<^verbatim>\<open>.get\<close> is \<open>None\<close> when the key is absent.
\<close>

record candidate =
  cand_type :: "string option"
  cand_symbol :: "string option"

record fh_article =
  fh_headline :: "string option"
  fh_summary :: "string option"
  fh_url :: "string option"
  fh_datetime :: "int option"
  fh_source :: "string option"

record finnhub =
  symbol_lookup :: "string \<Rightarrow> py_error + candidate list option"
  company_news :: "string \<Rightarrow> nat \<Rightarrow> py_error + fh_article list"

text \<open>
  The NewsAPI client: \<^verbatim>\<open>get_everything(q, from_param, language='en', sort_by='publishedAt',
  page_size)\<close>, with the start of the window given by \<^verbatim>\<open>days_back\<close>.  An article whose title
  is null has the empty title here.
\<close>

record newsapi_response =
  status :: string
  articles :: "article list"

type_synonym newsapi_client = "string \<Rightarrow> nat \<Rightarrow> nat \<Rightarrow> py_error + newsapi_response"

definition get_or :: "'a option \<Rightarrow> 'a \<Rightarrow> 'a" where
  "get_or v d = (case v of None \<Rightarrow> d | Some x \<Rightarrow> x)"

definition truthy :: "string option \<Rightarrow> bool" where
  "truthy v = (case v of None \<Rightarrow> False | Some s \<Rightarrow> s \<noteq> [])"

definition is_common_stock :: "candidate \<Rightarrow> bool" where
  "is_common_stock r = (cand_type r = Some ''Common Stock'')"

definition us_stocks :: "candidate list \<Rightarrow> candidate list" where
  "us_stocks results =
     filter (\<lambda>r. is_common_stock r \<and> CHR ''.'' \<notin> set (get_or (cand_symbol r) [])) results"

text \<open>Dashboard, \<^verbatim>\<open>get_company_symbol\<close>: \<open>None\<close> when nothing is found.\<close>

definition get_company_symbol ::
    "finnhub option \<Rightarrow> string \<Rightarrow> string option \<times> call list" where
  "get_company_symbol finnhub_client company_name =
     (case finnhub_client of
        None \<Rightarrow> (None, [])
      | Some c \<Rightarrow>
          (case symbol_lookup c company_name of
             Inl e \<Rightarrow> (None, [SymbolLookup company_name])
           | Inr None \<Rightarrow> (None, [SymbolLookup company_name])
           | Inr (Some results) \<Rightarrow>
               ((case us_stocks results of
                   u # _ \<Rightarrow> cand_symbol u
                 | [] \<Rightarrow> (case filter is_common_stock results of
                            r # _ \<Rightarrow> cand_symbol r
                          | [] \<Rightarrow> None)),
                [SymbolLookup company_name])))"

text \<open>Bot, \<^verbatim>\<open>get_company_symbol\<close>: the company name itself when nothing is found.\<close>

definition bot_get_company_symbol ::
    "finnhub option \<Rightarrow> string \<Rightarrow> string \<times> call list" where
  "bot_get_company_symbol finnhub_client company_name =
     (case finnhub_client of
        None \<Rightarrow> (company_name, [])
      | Some c \<Rightarrow>
          (case symbol_lookup c company_name of
             Inl e \<Rightarrow> (company_name, [SymbolLookup company_name])
           | Inr None \<Rightarrow> (company_name, [SymbolLookup company_name])
           | Inr (Some results) \<Rightarrow>
               ((case us_stocks results of
                   u # _ \<Rightarrow> get_or (cand_symbol u) company_name
                 | [] \<Rightarrow> (case filter is_common_stock results of
                            r # _ \<Rightarrow> get_or (cand_symbol r) company_name
                          | [] \<Rightarrow> company_name)),
                [SymbolLookup company_name])))"

text \<open>
  The loop of \<^verbatim>\<open>fetch_news_finnhub\<close> over the slice of the provider's answer: an entry with
  a truthy headline is mapped to the canonical shape, any other is skipped.  Reading
  \<^verbatim>\<open>article['datetime']\<close> raises KeyError when the key is absent; \<open>isoformat\<close> stands for
  \<^verbatim>\<open>datetime.datetime.fromtimestamp(t).isoformat()\<close>, which raises outside its range.
\<close>

fun canonical_articles ::
    "(int \<Rightarrow> py_error + string) \<Rightarrow> fh_article list \<Rightarrow> py_error + article list" where
  "canonical_articles isoformat [] = Inr []"
| "canonical_articles isoformat (a # news) =
     (if truthy (fh_headline a) then
        (case fh_datetime a of
           None \<Rightarrow> Inl KeyError
         | Some t \<Rightarrow>
             (case isoformat t of
                Inl e \<Rightarrow> Inl e
              | Inr published \<Rightarrow>
                  (case canonical_articles isoformat news of
                     Inl e \<Rightarrow> Inl e
                   | Inr rest \<Rightarrow>
                       Inr (\<lparr>title = get_or (fh_headline a) [],
                             description = get_or (fh_summary a) [],
                             url = get_or (fh_url a) [],
                             publishedAt = published,
                             source_name = get_or (fh_source a) ''Finnhub''\<rparr> # rest))))
      else canonical_articles isoformat news)"

text \<open>
  Dashboard, \<^verbatim>\<open>fetch_news_finnhub\<close>: the slice is \<^verbatim>\<open>news[:num_articles]\<close>; every exception is
  caught and answered with \<^verbatim>\<open>[]\<close>.
\<close>

definition fetch_news_finnhub ::
    "(int \<Rightarrow> py_error + string) \<Rightarrow> finnhub option \<Rightarrow> string \<Rightarrow> nat \<Rightarrow> nat
       \<Rightarrow> article list \<times> call list" where
  "fetch_news_finnhub isoformat finnhub_client company_symbol num_articles days_back =
     (case finnhub_client of
        None \<Rightarrow> ([], [])
      | Some c \<Rightarrow>
          (case company_news c company_symbol days_back of
             Inl e \<Rightarrow> ([], [CompanyNews company_symbol days_back])
           | Inr news \<Rightarrow>
               (case canonical_articles isoformat (take num_articles news) of
                  Inl e \<Rightarrow> ([], [CompanyNews company_symbol days_back])
                | Inr found \<Rightarrow> (found, [CompanyNews company_symbol days_back]))))"

text \<open>Bot, \<^verbatim>\<open>fetch_news_finnhub\<close>: the slice is \<^verbatim>\<open>news[:20]\<close>.\<close>

definition bot_fetch_news_finnhub ::
    "(int \<Rightarrow> py_error + string) \<Rightarrow> finnhub option \<Rightarrow> string \<Rightarrow> nat
       \<Rightarrow> article list \<times> call list" where
  "bot_fetch_news_finnhub isoformat finnhub_client company_symbol days_back =
     (case finnhub_client of
        None \<Rightarrow> ([], [])
      | Some c \<Rightarrow>
          (case company_news c company_symbol days_back of
             Inl e \<Rightarrow> ([], [CompanyNews company_symbol days_back])
           | Inr news \<Rightarrow>
               (case canonical_articles isoformat (take 20 news) of
                  Inl e \<Rightarrow> ([], [CompanyNews company_symbol days_back])
                | Inr found \<Rightarrow> (found, [CompanyNews company_symbol days_back]))))"

text \<open>The keyword query of \<^verbatim>\<open>fetch_news_newsapi\<close>, as each front end builds it.\<close>

definition quoted :: "string \<Rightarrow> string" where
  "quoted s = [CHR 0x22] @ s @ [CHR 0x22]"

definition any_word_in :: "string list \<Rightarrow> string \<Rightarrow> bool" where
  "any_word_in ws s = list_ex (\<lambda>w. contains w (lower s)) ws"

definition indian_query_words :: "string list" where
  "indian_query_words =
     [''reliance'', ''tcs'', ''infosys'', ''hdfc'', ''wipro'', ''icici'', ''bharti'', ''tata'']"

definition indian_companies :: "string list" where
  "indian_companies =
     [''reliance'', ''tcs'', ''infosys'', ''hdfc'', ''wipro'', ''icici'', ''bharti'',
      ''airtel'', ''sbi'', ''maruti'']"

definition region_terms :: "string \<Rightarrow> string" where
  "region_terms company =
     quoted (company @ '' India'') @ '' OR '' @ quoted (company @ '' NSE'') @ '' OR ''
       @ quoted (company @ '' BSE'')"

definition base_query :: "string \<Rightarrow> string" where
  "base_query company =
     quoted company @ '' OR '' @ quoted (company @ '' stock'') @ '' OR ''
       @ quoted (company @ '' shares'')"

definition search_query :: "string \<Rightarrow> string" where
  "search_query company =
     base_query company @ '' ''
       @ (if any_word_in indian_query_words company then region_terms company else [])"

definition bot_search_query :: "string \<Rightarrow> string" where
  "bot_search_query company_name =
     base_query company_name
       @ (if any_word_in indian_query_words company_name
          then '' OR '' @ region_terms company_name else [])"

text \<open>Dashboard, \<^verbatim>\<open>fetch_news_newsapi\<close>: the provider's articles as they come.\<close>

definition fetch_news_newsapi ::
    "newsapi_client option \<Rightarrow> string \<Rightarrow> nat \<Rightarrow> nat \<Rightarrow> article list \<times> call list" where
  "fetch_news_newsapi newsapi company num_articles days_back =
     (case newsapi of
        None \<Rightarrow> ([], [])
      | Some get_everything \<Rightarrow>
          (case get_everything (search_query company) days_back num_articles of
             Inl e \<Rightarrow> ([], [GetEverything (search_query company) days_back num_articles])
           | Inr answer \<Rightarrow>
               (if status answer = ''ok'' then articles answer else [],
                [GetEverything (search_query company) days_back num_articles])))"

text \<open>Bot, \<^verbatim>\<open>fetch_news_newsapi\<close>: page size 20, articles without a title dropped.\<close>

definition bot_fetch_news_newsapi ::
    "newsapi_client option \<Rightarrow> string \<Rightarrow> nat \<Rightarrow> article list \<times> call list" where
  "bot_fetch_news_newsapi newsapi company_name days_back =
     (case newsapi of
        None \<Rightarrow> ([], [])
      | Some get_everything \<Rightarrow>
          (case get_everything (bot_search_query company_name) days_back 20 of
             Inl e \<Rightarrow> ([], [GetEverything (bot_search_query company_name) days_back 20])
           | Inr answer \<Rightarrow>
               (if status answer = ''ok''
                then filter (\<lambda>a. title a \<noteq> []) (articles answer) else [],
                [GetEverything (bot_search_query company_name) days_back 20])))"

text \<open>
  Dashboard, \<^verbatim>\<open>fetch_news\<close>.  Without a symbol the function shows a warning (its wording
  depends on whether the name is in \<^verbatim>\<open>indian_companies\<close>) and returns \<^verbatim>\<open>[]\<close>; the returned
  value is the bare list.
\<close>

definition fetch_news ::
    "(int \<Rightarrow> py_error + string) \<Rightarrow> finnhub option \<Rightarrow> newsapi_client option
       \<Rightarrow> string \<Rightarrow> nat \<Rightarrow> string \<Rightarrow> nat \<Rightarrow> article list \<times> call list" where
  "fetch_news isoformat finnhub_client newsapi company num_articles source days_back =
     (if source = ''finnhub'' \<and> finnhub_client \<noteq> None then
        let (company_symbol, looked_up) = get_company_symbol finnhub_client company
        in if truthy company_symbol then
             let (found, fetched) =
                   fetch_news_finnhub isoformat finnhub_client (get_or company_symbol [])
                     num_articles days_back
             in (found, looked_up @ fetched)
           else ([], looked_up)
      else if source = ''newsapi'' \<and> newsapi \<noteq> None then
        fetch_news_newsapi newsapi company num_articles days_back
      else ([], []))"

text \<open>
  Bot, \<^verbatim>\<open>analyze_command\<close>, the fetch step: NewsAPI for a name in \<^verbatim>\<open>indian_companies\<close>,
  Finnhub with the looked-up symbol otherwise, both with the default window of 7 days.
  The second component is \<^verbatim>\<open>api_used\<close>.
\<close>

definition bot_fetch ::
    "(int \<Rightarrow> py_error + string) \<Rightarrow> finnhub option \<Rightarrow> newsapi_client option
       \<Rightarrow> string \<Rightarrow> (article list \<times> string) \<times> call list" where
  "bot_fetch isoformat finnhub_client newsapi company_name =
     (if any_word_in indian_companies company_name then
        let (found, fetched) = bot_fetch_news_newsapi newsapi company_name 7
        in ((found, ''NewsAPI''), fetched)
      else
        let (company_symbol, looked_up) = bot_get_company_symbol finnhub_client company_name;
            (found, fetched) = bot_fetch_news_finnhub isoformat finnhub_client company_symbol 7
        in ((found, ''Finnhub''), looked_up @ fetched))"

section \<open>Example providers\<close>

text \<open>
  Concrete collaborators for the evaluations below: a rendering of timestamps that never
  raises, a Finnhub client whose symbol search finds nothing and whose news for the
  symbol \<^verbatim>\<open>Acme\<close> is one article, one whose symbol search raises, and one whose news start
  with an entry without headline.
\<close>

definition epoch_iso :: "int \<Rightarrow> py_error + string" where
  "epoch_iso t = Inr ''1970-01-01T00:00:00''"

definition news_item :: "string \<Rightarrow> fh_article" where
  "news_item h =
     \<lparr>fh_headline = Some h, fh_summary = None, fh_url = None,
      fh_datetime = Some 0, fh_source = None\<rparr>"

definition no_match_finnhub :: finnhub where
  "no_match_finnhub =
     \<lparr>symbol_lookup = (\<lambda>name. Inr (Some [])),
      company_news =
        (\<lambda>symbol days. if symbol = ''Acme'' then Inr [news_item ''Acme soars''] else Inr [])\<rparr>"

definition failing_lookup_finnhub :: finnhub where
  "failing_lookup_finnhub =
     \<lparr>symbol_lookup = (\<lambda>name. Inl ExternalError),
      company_news = (\<lambda>symbol days. Inr [news_item ''Acme soars''])\<rparr>"

definition gappy_finnhub :: finnhub where
  "gappy_finnhub =
     \<lparr>symbol_lookup = (\<lambda>name. Inr None),
      company_news =
        (\<lambda>symbol days. Inr [news_item [], news_item ''A'', news_item ''B'', news_item ''C''])\<rparr>"

section \<open>Properties of the classifier adapter\<close>

lemmas case_conversion =
  upper_def upper_char_def lower_def lower_char_def ascii_lowercase_def ascii_uppercase_def

lemma foldl_better_mem: "foldl better x xs \<in> set (x # xs)"
  by (induction xs arbitrary: x) (auto simp: better_def)

lemma foldl_better_ge: "score x \<le> score (foldl better x xs)"
proof (induction xs arbitrary: x)
  case Nil
  show ?case by simp
next
  case (Cons y ys)
  have "score x \<le> score (better x y)" by (simp add: better_def)
  also have "\<dots> \<le> score (foldl better (better x y) ys)" by (rule Cons.IH)
  finally show ?case by simp
qed

lemma foldl_better_max: "y \<in> set (x # xs) \<Longrightarrow> score y \<le> score (foldl better x xs)"
proof (induction xs arbitrary: x)
  case Nil
  then show ?case by simp
next
  case (Cons z zs)
  have step: "score x \<le> score (better x z)" "score z \<le> score (better x z)"
    by (simp_all add: better_def)
  from Cons.prems consider "y = x" | "y = z" | "y \<in> set zs" by auto
  then show ?case
  proof cases
    case 1
    with step(1) foldl_better_ge [of "better x z" zs] show ?thesis by simp
  next
    case 2
    with step(2) foldl_better_ge [of "better x z" zs] show ?thesis by simp
  next
    case 3
    then have "y \<in> set (better x z # zs)" by simp
    from Cons.IH [OF this] show ?thesis by simp
  qed
qed

lemma max_by_score_max:
  assumes "xs \<noteq> []"
  shows "\<exists>m \<in> set xs. max_by_score xs = Inr m \<and> (\<forall>x \<in> set xs. score x \<le> score m)"
proof -
  from assms obtain y ys where xs: "xs = y # ys" by (cases xs) auto
  have "foldl better y ys \<in> set xs" unfolding xs by (rule foldl_better_mem)
  moreover have "\<forall>x \<in> set xs. score x \<le> score (foldl better y ys)"
    unfolding xs using foldl_better_max by blast
  ultimately show ?thesis by (auto simp: xs)
qed

lemma mapped_label_table:
  "mapped_label ''LABEL_0'' = ''NEGATIVE''"
  "mapped_label ''LABEL_1'' = ''NEUTRAL''"
  "mapped_label ''LABEL_2'' = ''POSITIVE''"
  "mapped_label ''NEGATIVE'' = ''NEGATIVE''"
  "mapped_label ''NEUTRAL'' = ''NEUTRAL''"
  "mapped_label ''POSITIVE'' = ''POSITIVE''"
  by (simp_all add: mapped_label_def label_mapping_def)

lemma mapped_label_other:
  "l \<notin> {''LABEL_0'', ''LABEL_1'', ''LABEL_2'', ''NEGATIVE'', ''NEUTRAL'', ''POSITIVE''}
     \<Longrightarrow> mapped_label l = l"
  by (simp add: mapped_label_def label_mapping_def)

lemma process_result_Single:
  "process_result (Single r) = Inr \<lparr>label = mapped_label (upper (label r)), score = score r\<rparr>"
  by (simp add: process_result_def)

lemma process_result_Scores:
  assumes "xs \<noteq> []"
  shows "\<exists>m \<in> set xs. (\<forall>x \<in> set xs. score x \<le> score m)
           \<and> process_result (Scores xs)
               = Inr \<lparr>label = mapped_label (upper (label m)), score = score m\<rparr>"
proof -
  from max_by_score_max [OF assms] obtain m where
    "m \<in> set xs" "max_by_score xs = Inr m" "\<forall>x \<in> set xs. score x \<le> score m" by blast
  then show ?thesis by (auto simp: process_result_def)
qed

lemma process_result_defined:
  "r \<noteq> Scores [] \<Longrightarrow> \<exists>s. process_result r = Inr s"
proof (cases r)
  case (Single x)
  then show ?thesis by (simp add: process_result_def)
next
  case (Scores xs)
  assume "r \<noteq> Scores []"
  with Scores obtain y ys where "xs = y # ys" by (cases xs) auto
  with Scores show ?thesis by (simp add: process_result_def)
qed

lemma processed_results_defined:
  "\<forall>r \<in> set results. r \<noteq> Scores [] \<Longrightarrow> \<exists>rs. processed_results results = Inr rs"
proof (induction results)
  case Nil
  show ?case by simp
next
  case (Cons r results)
  then obtain s where "process_result r = Inr s"
    using process_result_defined [of r] by auto
  moreover from Cons obtain rs where "processed_results results = Inr rs" by auto
  ultimately show ?case by simp
qed

lemma processed_results_nth:
  "processed_results results = Inr rs \<Longrightarrow>
     length rs = length results
     \<and> (\<forall>i < length results. process_result (results ! i) = Inr (rs ! i))"
proof (induction results arbitrary: rs)
  case Nil
  then show ?case by simp
next
  case (Cons r results)
  from Cons.prems obtain s ss where
    s: "process_result r = Inr s" and ss: "processed_results results = Inr ss"
    and rs: "rs = s # ss"
    by (auto split: sum.splits)
  from Cons.IH [OF ss] have
    len: "length ss = length results"
    and nth: "\<And>i. i < length results \<Longrightarrow> process_result (results ! i) = Inr (ss ! i)"
    by auto
  have "process_result ((r # results) ! i) = Inr (rs ! i)" if "i < length (r # results)" for i
  proof (cases i)
    case 0
    with s rs show ?thesis by simp
  next
    case (Suc j)
    with that have "j < length results" by simp
    from nth [OF this] Suc rs show ?thesis by simp
  qed
  with len rs show ?case by simp
qed

lemma bot_processed_results_eq:
  "bot_processed_results results acc =
     (case processed_results results of Inl e \<Rightarrow> Inl e | Inr rs \<Rightarrow> Inr (acc @ rs))"
  by (induction results arbitrary: acc) (auto split: sum.splits)

lemma analyze_sentiment_defined:
  assumes "headlines \<noteq> []" and "sentiment_pipeline headlines = Inr results"
    and "\<forall>r \<in> set results. r \<noteq> Scores []"
  shows "\<exists>rs. analyze_sentiment sentiment_pipeline headlines = (Inr rs, [Classify headlines])
           \<and> length rs = length results
           \<and> (\<forall>i < length results. process_result (results ! i) = Inr (rs ! i))"
proof -
  from processed_results_defined [OF assms(3)] obtain rs where
    rs: "processed_results results = Inr rs" by blast
  with assms(1,2) have "analyze_sentiment sentiment_pipeline headlines
      = (Inr rs, [Classify headlines])"
    by (simp add: analyze_sentiment_def)
  with processed_results_nth [OF rs] show ?thesis by blast
qed

lemma adapters_defined:
  assumes "headlines \<noteq> []" and "sentiment_pipeline headlines = Inr results"
    and "\<forall>r \<in> set results. r \<noteq> Scores []"
  shows "\<exists>rs. analyze_sentiment sentiment_pipeline headlines = (Inr rs, [Classify headlines])
           \<and> bot_analyze_sentiment (Some sentiment_pipeline) headlines
               = (rs, [Classify headlines])
           \<and> length rs = length results
           \<and> (\<forall>i < length results. process_result (results ! i) = Inr (rs ! i))"
proof -
  from processed_results_defined [OF assms(3)] obtain rs where
    rs: "processed_results results = Inr rs" by blast
  then have acc: "bot_processed_results results [] = Inr rs"
    by (simp add: bot_processed_results_eq)
  from rs assms(1,2) have "analyze_sentiment sentiment_pipeline headlines
      = (Inr rs, [Classify headlines])"
    by (simp add: analyze_sentiment_def)
  moreover from acc assms(1,2) have "bot_analyze_sentiment (Some sentiment_pipeline) headlines
      = (rs, [Classify headlines])"
    by (simp add: bot_analyze_sentiment_def)
  ultimately show ?thesis using processed_results_nth [OF rs] by blast
qed

text \<open>
  Claim C7.  The adapter maps the positional tags \<^verbatim>\<open>LABEL_0\<close>, \<^verbatim>\<open>LABEL_1\<close>, \<^verbatim>\<open>LABEL_2\<close> to
  NEGATIVE, NEUTRAL, POSITIVE; a literal class name in any letter case comes out as the
  upper-case class name; the score of a single record is kept as the confidence; from a
  list of per-class scores the adapter takes an entry of greatest score and keeps that
  score.  Every entry of the model's answer is treated this way by \<^verbatim>\<open>analyze_sentiment\<close>,
  index for index, and the two examples of the specification come out as stated.
\<close>

theorem label_normalization:
  "mapped_label ''LABEL_0'' = ''NEGATIVE''
   \<and> mapped_label ''LABEL_1'' = ''NEUTRAL''
   \<and> mapped_label ''LABEL_2'' = ''POSITIVE''
   \<and> process_result (Single r)
       = Inr \<lparr>label = mapped_label (upper (label r)), score = score r\<rparr>
   \<and> (upper (label r) \<in> {''NEGATIVE'', ''NEUTRAL'', ''POSITIVE''} \<longrightarrow>
        process_result (Single r) = Inr \<lparr>label = upper (label r), score = score r\<rparr>)
   \<and> (xs \<noteq> [] \<longrightarrow>
        (\<exists>m \<in> set xs. (\<forall>x \<in> set xs. score x \<le> score m)
           \<and> process_result (Scores xs)
               = Inr \<lparr>label = mapped_label (upper (label m)), score = score m\<rparr>))
   \<and> (headlines \<noteq> [] \<and> sentiment_pipeline headlines = Inr results
        \<and> (\<forall>x \<in> set results. x \<noteq> Scores []) \<longrightarrow>
        (\<exists>rs. analyze_sentiment sentiment_pipeline headlines = (Inr rs, [Classify headlines])
           \<and> length rs = length results
           \<and> (\<forall>i < length results. process_result (results ! i) = Inr (rs ! i))))
   \<and> analyze_sentiment
         (\<lambda>hs. Inr [Single \<lparr>label = ''LABEL_2'', score = 0.87\<rparr>,
                    Single \<lparr>label = ''NEGATIVE'', score = 0.55\<rparr>])
         [''first'', ''second'']
       = (Inr [\<lparr>label = ''POSITIVE'', score = 0.87\<rparr>, \<lparr>label = ''NEGATIVE'', score = 0.55\<rparr>],
          [Classify [''first'', ''second'']])"
proof -
  have literal: "process_result (Single r) = Inr \<lparr>label = upper (label r), score = score r\<rparr>"
    if "upper (label r) \<in> {''NEGATIVE'', ''NEUTRAL'', ''POSITIVE''}"
    using that mapped_label_table(4-6) by (auto simp: process_result_Single)
  have examples: "analyze_sentiment
         (\<lambda>hs. Inr [Single \<lparr>label = ''LABEL_2'', score = 0.87\<rparr>,
                    Single \<lparr>label = ''NEGATIVE'', score = 0.55\<rparr>])
         [''first'', ''second'']
       = (Inr [\<lparr>label = ''POSITIVE'', score = 0.87\<rparr>, \<lparr>label = ''NEGATIVE'', score = 0.55\<rparr>],
          [Classify [''first'', ''second'']])"
    by (simp add: analyze_sentiment_def process_result_def mapped_label_def label_mapping_def
        case_conversion)
  show ?thesis
    using mapped_label_table(1-3) process_result_Single [of r] literal
      process_result_Scores [of xs]
      analyze_sentiment_defined [of headlines sentiment_pipeline results] examples
    by blast
qed

theorem label_normalization_witness:
  "upper (label \<lparr>label = ''positive'', score = 0.55\<rparr>) \<in> {''NEGATIVE'', ''NEUTRAL'', ''POSITIVE''}
   \<and> process_result (Single \<lparr>label = ''positive'', score = 0.55\<rparr>)
       = Inr \<lparr>label = ''POSITIVE'', score = 0.55\<rparr>
   \<and> [\<lparr>label = ''negative'', score = 0.2\<rparr>, \<lparr>label = ''neutral'', score = 0.7\<rparr>,
       \<lparr>label = ''positive'', score = 0.1\<rparr>] \<noteq> []
   \<and> process_result (Scores [\<lparr>label = ''negative'', score = 0.2\<rparr>,
        \<lparr>label = ''neutral'', score = 0.7\<rparr>, \<lparr>label = ''positive'', score = 0.1\<rparr>])
       = Inr \<lparr>label = ''NEUTRAL'', score = 0.7\<rparr>
   \<and> [''h''] \<noteq> []
   \<and> Scores [] \<notin> set [Single \<lparr>label = ''LABEL_0'', score = 0.9\<rparr>]
   \<and> analyze_sentiment (\<lambda>hs. Inr [Single \<lparr>label = ''LABEL_0'', score = 0.9\<rparr>]) [''h'']
       = (Inr [\<lparr>label = ''NEGATIVE'', score = 0.9\<rparr>], [Classify [''h'']])"
  using label_normalization
    [of "\<lparr>label = ''positive'', score = 0.55\<rparr>"
        "[\<lparr>label = ''negative'', score = 0.2\<rparr>, \<lparr>label = ''neutral'', score = 0.7\<rparr>,
          \<lparr>label = ''positive'', score = 0.1\<rparr>]"
        "[''h'']" "\<lambda>hs. Inr [Single \<lparr>label = ''LABEL_0'', score = 0.9\<rparr>]"
        "[Single \<lparr>label = ''LABEL_0'', score = 0.9\<rparr>]"]
  by (simp add: analyze_sentiment_def process_result_def mapped_label_def label_mapping_def
      case_conversion better_def)

text \<open>
  Claim C2, as the specification states it: a label outside the six table entries makes the
  adapter fail the request with a classification error.  The code has no such error: the
  label \<^verbatim>\<open>mixed\<close>, whose upper-case form is in none of the six entries, is answered by both
  front ends with a result carrying the label \<^verbatim>\<open>MIXED\<close>.
\<close>

theorem unrecognized_label_counterexample:
  "upper ''mixed'' \<notin> {''LABEL_0'', ''LABEL_1'', ''LABEL_2'', ''NEGATIVE'', ''NEUTRAL'', ''POSITIVE''}
   \<and> analyze_sentiment (\<lambda>hs. Inr [Single \<lparr>label = ''mixed'', score = 0.5\<rparr>]) [''h'']
       = (Inr [\<lparr>label = ''MIXED'', score = 0.5\<rparr>], [Classify [''h'']])
   \<and> bot_analyze_sentiment (Some (\<lambda>hs. Inr [Single \<lparr>label = ''mixed'', score = 0.5\<rparr>])) [''h'']
       = ([\<lparr>label = ''MIXED'', score = 0.5\<rparr>], [Classify [''h'']])"
  by (simp add: analyze_sentiment_def bot_analyze_sentiment_def process_result_def
      mapped_label_def label_mapping_def case_conversion)

text \<open>
  Claim C2, amended.  Let the model answer without raising, with no empty per-class list
  in its answer, and let one entry of the answer select a record whose upper-case label
  is outside the six table entries: the entry is that record, or it is a per-class list
  and the record is the one \<^verbatim>\<open>max\<close> picks from it.  Then neither front end fails.  The
  dashboard's \<^verbatim>\<open>analyze_sentiment\<close> and the bot's (with an initialised handle) return the
  same list, one result per entry of the answer, and the result at that entry's index
  carries the upper-case label itself, with the record's score.
  (\<^verbatim>\<open>label_mapping.get(label, label)\<close> falls back to the label.)
\<close>

theorem unrecognized_label_passed_through:
  assumes "headlines \<noteq> []"
    and "sentiment_pipeline headlines = Inr results"
    and "\<forall>x \<in> set results. x \<noteq> Scores []"
    and "i < length results"
    and "results ! i = Single r \<or> (\<exists>xs. results ! i = Scores xs \<and> max_by_score xs = Inr r)"
    and "upper (label r)
           \<notin> {''LABEL_0'', ''LABEL_1'', ''LABEL_2'', ''NEGATIVE'', ''NEUTRAL'', ''POSITIVE''}"
  shows "\<exists>rs. analyze_sentiment sentiment_pipeline headlines = (Inr rs, [Classify headlines])
           \<and> bot_analyze_sentiment (Some sentiment_pipeline) headlines
               = (rs, [Classify headlines])
           \<and> length rs = length results
           \<and> rs ! i = \<lparr>label = upper (label r), score = score r\<rparr>"
proof -
  from adapters_defined [of headlines sentiment_pipeline results] assms(1-3)
  obtain rs where
    run: "analyze_sentiment sentiment_pipeline headlines = (Inr rs, [Classify headlines])"
    and bot: "bot_analyze_sentiment (Some sentiment_pipeline) headlines
               = (rs, [Classify headlines])"
    and len: "length rs = length results"
    and nth: "\<forall>i < length results. process_result (results ! i) = Inr (rs ! i)"
    by blast
  from assms(5) have "process_result (results ! i)
      = Inr \<lparr>label = mapped_label (upper (label r)), score = score r\<rparr>"
    by (auto simp: process_result_def)
  with nth assms(4) have "rs ! i = \<lparr>label = mapped_label (upper (label r)), score = score r\<rparr>"
    by auto
  with mapped_label_other [OF assms(6)] run bot len show ?thesis by simp
qed

theorem unrecognized_label_passed_through_witness:
  "[''h'', ''k''] \<noteq> []
   \<and> Scores [] \<notin> set
        [Scores [\<lparr>label = ''positive'', score = 0.1\<rparr>, \<lparr>label = ''mixed'', score = 0.9\<rparr>],
         Single \<lparr>label = ''Label_3'', score = 0.8\<rparr>]
   \<and> [Scores [\<lparr>label = ''positive'', score = 0.1\<rparr>, \<lparr>label = ''mixed'', score = 0.9\<rparr>],
       Single \<lparr>label = ''Label_3'', score = 0.8\<rparr>] ! 1
       = Single \<lparr>label = ''Label_3'', score = 0.8\<rparr>
   \<and> [Scores [\<lparr>label = ''positive'', score = 0.1\<rparr>, \<lparr>label = ''mixed'', score = 0.9\<rparr>],
       Single \<lparr>label = ''Label_3'', score = 0.8\<rparr>] ! 0
       = Scores [\<lparr>label = ''positive'', score = 0.1\<rparr>, \<lparr>label = ''mixed'', score = 0.9\<rparr>]
   \<and> max_by_score [\<lparr>label = ''positive'', score = 0.1\<rparr>, \<lparr>label = ''mixed'', score = 0.9\<rparr>]
       = Inr \<lparr>label = ''mixed'', score = 0.9\<rparr>
   \<and> upper ''Label_3''
        \<notin> {''LABEL_0'', ''LABEL_1'', ''LABEL_2'', ''NEGATIVE'', ''NEUTRAL'', ''POSITIVE''}
   \<and> upper ''mixed''
        \<notin> {''LABEL_0'', ''LABEL_1'', ''LABEL_2'', ''NEGATIVE'', ''NEUTRAL'', ''POSITIVE''}
   \<and> analyze_sentiment
         (\<lambda>hs. Inr [Scores [\<lparr>label = ''positive'', score = 0.1\<rparr>,
                            \<lparr>label = ''mixed'', score = 0.9\<rparr>],
                    Single \<lparr>label = ''Label_3'', score = 0.8\<rparr>]) [''h'', ''k'']
       = (Inr [\<lparr>label = ''MIXED'', score = 0.9\<rparr>, \<lparr>label = ''LABEL_3'', score = 0.8\<rparr>],
          [Classify [''h'', ''k'']])
   \<and> bot_analyze_sentiment
         (Some (\<lambda>hs. Inr [Scores [\<lparr>label = ''positive'', score = 0.1\<rparr>,
                                  \<lparr>label = ''mixed'', score = 0.9\<rparr>],
                          Single \<lparr>label = ''Label_3'', score = 0.8\<rparr>])) [''h'', ''k'']
       = ([\<lparr>label = ''MIXED'', score = 0.9\<rparr>, \<lparr>label = ''LABEL_3'', score = 0.8\<rparr>],
          [Classify [''h'', ''k'']])"
  using unrecognized_label_passed_through
    [of "[''h'', ''k'']"
        "\<lambda>hs. Inr [Scores [\<lparr>label = ''positive'', score = 0.1\<rparr>,
                           \<lparr>label = ''mixed'', score = 0.9\<rparr>],
                   Single \<lparr>label = ''Label_3'', score = 0.8\<rparr>]"
        "[Scores [\<lparr>label = ''positive'', score = 0.1\<rparr>, \<lparr>label = ''mixed'', score = 0.9\<rparr>],
          Single \<lparr>label = ''Label_3'', score = 0.8\<rparr>]"
        1 "\<lparr>label = ''Label_3'', score = 0.8\<rparr>"]
    unrecognized_label_passed_through
    [of "[''h'', ''k'']"
        "\<lambda>hs. Inr [Scores [\<lparr>label = ''positive'', score = 0.1\<rparr>,
                           \<lparr>label = ''mixed'', score = 0.9\<rparr>],
                   Single \<lparr>label = ''Label_3'', score = 0.8\<rparr>]"
        "[Scores [\<lparr>label = ''positive'', score = 0.1\<rparr>, \<lparr>label = ''mixed'', score = 0.9\<rparr>],
          Single \<lparr>label = ''Label_3'', score = 0.8\<rparr>]"
        0 "\<lparr>label = ''mixed'', score = 0.9\<rparr>"]
  by (simp add: analyze_sentiment_def bot_analyze_sentiment_def process_result_def
      mapped_label_def label_mapping_def case_conversion better_def)

text \<open>
  Claim C10, as stated, assumes only an initialised handle and a model call that does not
  raise.  When the model answers with an empty per-class list, \<^verbatim>\<open>max\<close> raises ValueError
  inside the loop: the dashboard's function lets it out, the bot's \<^verbatim>\<open>except\<close> clause
  returns \<^verbatim>\<open>[]\<close>.
\<close>

theorem front_ends_agree_counterexample:
  "analyze_sentiment (\<lambda>hs. Inr [Scores []]) [''h''] = (Inl ValueError, [Classify [''h'']])
   \<and> bot_analyze_sentiment (Some (\<lambda>hs. Inr [Scores []])) [''h''] = ([], [Classify [''h'']])"
  by (simp add: analyze_sentiment_def bot_analyze_sentiment_def process_result_def)

text \<open>
  Claim C10, amended.  Given the same model handle and the same texts, with the handle
  answering (no exception) and every per-class list in its answer non-empty, the
  dashboard's \<^verbatim>\<open>analyze_sentiment\<close> returns normally, and what it returns is the list the
  bot's \<^verbatim>\<open>analyze_sentiment\<close> returns with an initialised handle; both call the model the
  same way.
\<close>

theorem front_ends_agree:
  assumes "sentiment_pipeline texts = Inr results"
    and "\<forall>r \<in> set results. r \<noteq> Scores []"
  shows "analyze_sentiment sentiment_pipeline texts
           = (Inr (fst (bot_analyze_sentiment (Some sentiment_pipeline) texts)),
              snd (bot_analyze_sentiment (Some sentiment_pipeline) texts))"
proof -
  from processed_results_defined [OF assms(2)] obtain rs where
    rs: "processed_results results = Inr rs" by blast
  then have "bot_processed_results results [] = Inr rs"
    by (simp add: bot_processed_results_eq)
  with rs assms(1) show ?thesis
    by (simp add: analyze_sentiment_def bot_analyze_sentiment_def)
qed

theorem front_ends_agree_witness:
  "(\<lambda>hs. Inr [Single \<lparr>label = ''LABEL_2'', score = 0.87\<rparr>,
              Scores [\<lparr>label = ''negative'', score = 0.7\<rparr>, \<lparr>label = ''neutral'', score = 0.3\<rparr>]])
      [''a'', ''b'']
     = (Inr [Single \<lparr>label = ''LABEL_2'', score = 0.87\<rparr>,
             Scores [\<lparr>label = ''negative'', score = 0.7\<rparr>, \<lparr>label = ''neutral'', score = 0.3\<rparr>]]
          :: py_error + model_result list)
   \<and> Scores [] \<notin> set [Single \<lparr>label = ''LABEL_2'', score = 0.87\<rparr>,
         Scores [\<lparr>label = ''negative'', score = 0.7\<rparr>, \<lparr>label = ''neutral'', score = 0.3\<rparr>]]
   \<and> analyze_sentiment
        (\<lambda>hs. Inr [Single \<lparr>label = ''LABEL_2'', score = 0.87\<rparr>,
           Scores [\<lparr>label = ''negative'', score = 0.7\<rparr>, \<lparr>label = ''neutral'', score = 0.3\<rparr>]])
        [''a'', ''b'']
       = (Inr [\<lparr>label = ''POSITIVE'', score = 0.87\<rparr>, \<lparr>label = ''NEGATIVE'', score = 0.7\<rparr>],
          [Classify [''a'', ''b'']])
   \<and> bot_analyze_sentiment
        (Some (\<lambda>hs. Inr [Single \<lparr>label = ''LABEL_2'', score = 0.87\<rparr>,
           Scores [\<lparr>label = ''negative'', score = 0.7\<rparr>, \<lparr>label = ''neutral'', score = 0.3\<rparr>]]))
        [''a'', ''b'']
       = ([\<lparr>label = ''POSITIVE'', score = 0.87\<rparr>, \<lparr>label = ''NEGATIVE'', score = 0.7\<rparr>],
          [Classify [''a'', ''b'']])"
  using front_ends_agree
    [of "\<lambda>hs. Inr [Single \<lparr>label = ''LABEL_2'', score = 0.87\<rparr>,
           Scores [\<lparr>label = ''negative'', score = 0.7\<rparr>, \<lparr>label = ''neutral'', score = 0.3\<rparr>]]"
        "[''a'', ''b'']"
        "[Single \<lparr>label = ''LABEL_2'', score = 0.87\<rparr>,
          Scores [\<lparr>label = ''negative'', score = 0.7\<rparr>, \<lparr>label = ''neutral'', score = 0.3\<rparr>]]"]
  by (simp add: bot_analyze_sentiment_def process_result_def mapped_label_def
      label_mapping_def case_conversion better_def)

section \<open>Properties of the aggregator\<close>

lemma count_label_count_list: "count_label l rs = count_list (map label rs) l"
  by (induction rs) (auto simp: count_label_def)

lemma count_label_sum:
  "\<forall>r \<in> set rs. label r \<in> {''POSITIVE'', ''NEGATIVE'', ''NEUTRAL''} \<Longrightarrow>
     count_label ''POSITIVE'' rs + count_label ''NEGATIVE'' rs + count_label ''NEUTRAL'' rs
       = length rs"
  by (induction rs) (auto simp: count_label_def)

lemma sum_scores_bounds:
  "\<forall>r \<in> set rs. 0 \<le> score r \<and> score r \<le> 1 \<Longrightarrow>
     0 \<le> sum_list (map score rs) \<and> sum_list (map score rs) \<le> real (length rs)"
  by (induction rs) auto

lemma mean_bounds:
  assumes "\<forall>r \<in> set rs. 0 \<le> score r \<and> score r \<le> 1" and "rs \<noteq> []"
  shows "0 \<le> sum_list (map score rs) / real (length rs)"
    and "sum_list (map score rs) / real (length rs) \<le> 1"
proof -
  from sum_scores_bounds [OF assms(1)] have
    b: "0 \<le> sum_list (map score rs)" "sum_list (map score rs) \<le> real (length rs)" by auto
  from assms(2) have pos: "0 < real (length rs)" by simp
  from b(1) pos show "0 \<le> sum_list (map score rs) / real (length rs)" by simp
  from b(2) pos show "sum_list (map score rs) / real (length rs) \<le> 1" by simp
qed

lemma set_unique: "set (unique xs) = set xs"
  by (induction xs) auto

lemma ex_most_frequent:
  assumes "xs \<noteq> []"
  shows "\<exists>v \<in> set xs. \<forall>w. count_list xs w \<le> count_list xs v"
proof -
  let ?M = "Max (count_list xs ` set xs)"
  have fin: "finite (count_list xs ` set xs)" by simp
  from assms have ne: "count_list xs ` set xs \<noteq> {}" by simp
  from Max_in [OF fin ne] obtain v where v: "v \<in> set xs" "count_list xs v = ?M" by auto
  have "count_list xs w \<le> count_list xs v" for w
  proof (cases "w \<in> set xs")
    case True
    then have "count_list xs w \<le> ?M" by (intro Max_ge) auto
    with v show ?thesis by simp
  next
    case False
    then show ?thesis by (simp add: count_list_0_iff)
  qed
  with v show ?thesis by blast
qed

lemma greatest_value_counts:
  "set (greatest (value_counts xs))
     = {v \<in> set xs. \<forall>w \<in> set xs. count_list xs w \<le> count_list xs v}"
proof -
  have "v \<in> set (greatest (value_counts xs)) \<longleftrightarrow>
          v \<in> set xs \<and> (\<forall>w \<in> set xs. count_list xs w \<le> count_list xs v)" for v
  proof
    assume "v \<in> set (greatest (value_counts xs))"
    then show "v \<in> set xs \<and> (\<forall>w \<in> set xs. count_list xs w \<le> count_list xs v)"
      by (auto simp: greatest_def value_counts_def set_unique list_all_iff)
  next
    assume v: "v \<in> set xs \<and> (\<forall>w \<in> set xs. count_list xs w \<le> count_list xs v)"
    then have "(v, count_list xs v) \<in> set (filter (\<lambda>(v, n). list_all (\<lambda>(w, m). m \<le> n)
        (value_counts xs)) (value_counts xs))"
      by (auto simp: value_counts_def set_unique list_all_iff)
    then have "fst (v, count_list xs v) \<in> set (greatest (value_counts xs))"
      unfolding greatest_def set_map by (rule imageI)
    then show "v \<in> set (greatest (value_counts xs))" by simp
  qed
  then show ?thesis by blast
qed

lemma greatest_nonempty:
  assumes "xs \<noteq> []"
  shows "greatest (value_counts xs) \<noteq> []"
proof -
  from ex_most_frequent [OF assms] obtain v where
    "v \<in> set xs" "\<forall>w. count_list xs w \<le> count_list xs v" by blast
  then have "v \<in> set (greatest (value_counts xs))"
    by (simp add: greatest_value_counts)
  then show ?thesis by auto
qed

lemma greatest_is_max:
  assumes "d \<in> set (greatest (value_counts xs))"
  shows "d \<in> set xs" and "count_list xs w \<le> count_list xs d"
proof -
  from assms have d: "d \<in> set xs" "\<forall>w \<in> set xs. count_list xs w \<le> count_list xs d"
    by (simp_all add: greatest_value_counts)
  show "d \<in> set xs" by (rule d(1))
  show "count_list xs w \<le> count_list xs d"
  proof (cases "w \<in> set xs")
    case True
    with d(2) show ?thesis by blast
  next
    case False
    then show ?thesis by (simp add: count_list_0_iff)
  qed
qed

lemma dashboard_dominant:
  assumes "rs \<noteq> []"
    and "tie_break (greatest (value_counts (map (\<lambda>r. title_case (label r)) rs)))
           \<in> set (greatest (value_counts (map (\<lambda>r. title_case (label r)) rs)))"
  shows "fst (sentiment_overview tie_break rs) \<in> set (map (\<lambda>r. title_case (label r)) rs)"
    and "count_list (map (\<lambda>r. title_case (label r)) rs) w
           \<le> count_list (map (\<lambda>r. title_case (label r)) rs)
                (fst (sentiment_overview tie_break rs))"
    and "(\<forall>v. v \<noteq> l \<longrightarrow> count_list (map (\<lambda>r. title_case (label r)) rs) v
                 < count_list (map (\<lambda>r. title_case (label r)) rs) l)
           \<Longrightarrow> fst (sentiment_overview tie_break rs) = l"
proof -
  let ?xs = "map (\<lambda>r. title_case (label r)) rs"
  from assms(1) have "?xs \<noteq> []" by simp
  then have "value_counts ?xs \<noteq> []" using greatest_nonempty [of ?xs]
    by (auto simp: greatest_def)
  then have d: "fst (sentiment_overview tie_break rs) = tie_break (greatest (value_counts ?xs))"
    by (simp add: sentiment_overview_def Let_def idxmax_def)
  from greatest_is_max(1) [OF assms(2)] d
  show "fst (sentiment_overview tie_break rs) \<in> set ?xs" by simp
  from greatest_is_max(2) [OF assms(2)] d
  show mx: "count_list ?xs w \<le> count_list ?xs (fst (sentiment_overview tie_break rs))" for w
    by simp
  show "fst (sentiment_overview tie_break rs) = l"
    if "\<forall>v. v \<noteq> l \<longrightarrow> count_list ?xs v < count_list ?xs l"
  proof (rule ccontr)
    assume "fst (sentiment_overview tie_break rs) \<noteq> l"
    with that have "count_list ?xs (fst (sentiment_overview tie_break rs)) < count_list ?xs l"
      by blast
    with mx [of l] show False by simp
  qed
qed

lemmas overview_evaluation =
  sentiment_overview_def Let_def idxmax_def greatest_def value_counts_def
  title_case_def is_cased_def case_conversion

text \<open>
  Claim C1, as the specification states it: the dominant label is the one whose count is
  strictly greatest, and any tie gives NEUTRAL.  In the bot's
  \<^verbatim>\<open>calculate_overall_sentiment\<close> one POSITIVE article beside two NEUTRAL ones gives POSITIVE
  although NEUTRAL has the strictly greatest count, and the tie of POSITIVE with NEUTRAL
  gives POSITIVE too.  In the dashboard a tie of POSITIVE with NEGATIVE gives one of the
  two, whichever of them pandas lists first, and not NEUTRAL.
\<close>

theorem dominant_label_counterexample:
  "positive_count (calculate_overall_sentiment
       [\<lparr>label = ''POSITIVE'', score = 0.9\<rparr>, \<lparr>label = ''NEUTRAL'', score = 0.5\<rparr>,
        \<lparr>label = ''NEUTRAL'', score = 0.6\<rparr>]) = 1
   \<and> negative_count (calculate_overall_sentiment
       [\<lparr>label = ''POSITIVE'', score = 0.9\<rparr>, \<lparr>label = ''NEUTRAL'', score = 0.5\<rparr>,
        \<lparr>label = ''NEUTRAL'', score = 0.6\<rparr>]) = 0
   \<and> neutral_count (calculate_overall_sentiment
       [\<lparr>label = ''POSITIVE'', score = 0.9\<rparr>, \<lparr>label = ''NEUTRAL'', score = 0.5\<rparr>,
        \<lparr>label = ''NEUTRAL'', score = 0.6\<rparr>]) = 2
   \<and> overall_sentiment (calculate_overall_sentiment
       [\<lparr>label = ''POSITIVE'', score = 0.9\<rparr>, \<lparr>label = ''NEUTRAL'', score = 0.5\<rparr>,
        \<lparr>label = ''NEUTRAL'', score = 0.6\<rparr>]) = ''POSITIVE''
   \<and> positive_count (calculate_overall_sentiment
       [\<lparr>label = ''POSITIVE'', score = 0.9\<rparr>, \<lparr>label = ''NEUTRAL'', score = 0.5\<rparr>]) = 1
   \<and> neutral_count (calculate_overall_sentiment
       [\<lparr>label = ''POSITIVE'', score = 0.9\<rparr>, \<lparr>label = ''NEUTRAL'', score = 0.5\<rparr>]) = 1
   \<and> overall_sentiment (calculate_overall_sentiment
       [\<lparr>label = ''POSITIVE'', score = 0.9\<rparr>, \<lparr>label = ''NEUTRAL'', score = 0.5\<rparr>])
       = ''POSITIVE''
   \<and> fst (sentiment_overview hd
       [\<lparr>label = ''POSITIVE'', score = 0.9\<rparr>, \<lparr>label = ''NEGATIVE'', score = 0.5\<rparr>])
       = ''Positive''
   \<and> fst (sentiment_overview last
       [\<lparr>label = ''POSITIVE'', score = 0.9\<rparr>, \<lparr>label = ''NEGATIVE'', score = 0.5\<rparr>])
       = ''Negative''"
  by (simp add: calculate_overall_sentiment_def count_label_def overview_evaluation)

text \<open>
  Claim C1, amended.  In the bot, for every sequence of results, the dominant label is
  POSITIVE when there are strictly more POSITIVE than NEGATIVE labels, NEGATIVE when
  there are strictly more NEGATIVE than POSITIVE labels, and NEUTRAL otherwise, so a
  POSITIVE/NEGATIVE tie (three of each, no NEUTRAL) gives NEUTRAL; the number of NEUTRAL
  labels plays no part.  In the dashboard, for every non-empty sequence of results, the
  dominant label is a label of the sequence whose count is greatest: the label whose
  count is strictly greater than every other label's when there is one, and otherwise
  one of the labels that tie for the greatest count, whichever pandas lists first.
\<close>

theorem dominant_label_rule:
  "overall_sentiment (calculate_overall_sentiment rs) =
     (if count_list (map label rs) ''NEGATIVE'' < count_list (map label rs) ''POSITIVE''
      then ''POSITIVE''
      else if count_list (map label rs) ''POSITIVE'' < count_list (map label rs) ''NEGATIVE''
      then ''NEGATIVE'' else ''NEUTRAL'')
   \<and> overall_sentiment (calculate_overall_sentiment
        [\<lparr>label = ''POSITIVE'', score = 0.9\<rparr>, \<lparr>label = ''NEGATIVE'', score = 0.8\<rparr>,
         \<lparr>label = ''POSITIVE'', score = 0.7\<rparr>, \<lparr>label = ''NEGATIVE'', score = 0.6\<rparr>,
         \<lparr>label = ''POSITIVE'', score = 0.5\<rparr>, \<lparr>label = ''NEGATIVE'', score = 0.4\<rparr>])
       = ''NEUTRAL''
   \<and> (rs \<noteq> []
        \<and> tie_break (greatest (value_counts (map (\<lambda>r. title_case (label r)) rs)))
             \<in> set (greatest (value_counts (map (\<lambda>r. title_case (label r)) rs)))
      \<longrightarrow> fst (sentiment_overview tie_break rs) \<in> set (map (\<lambda>r. title_case (label r)) rs)
        \<and> (\<forall>w. count_list (map (\<lambda>r. title_case (label r)) rs) w
                 \<le> count_list (map (\<lambda>r. title_case (label r)) rs)
                      (fst (sentiment_overview tie_break rs)))
        \<and> (\<forall>l. (\<forall>v. v \<noteq> l \<longrightarrow> count_list (map (\<lambda>r. title_case (label r)) rs) v
                           < count_list (map (\<lambda>r. title_case (label r)) rs) l)
                 \<longrightarrow> fst (sentiment_overview tie_break rs) = l))"
proof -
  have bot: "overall_sentiment (calculate_overall_sentiment rs) =
     (if count_list (map label rs) ''NEGATIVE'' < count_list (map label rs) ''POSITIVE''
      then ''POSITIVE''
      else if count_list (map label rs) ''POSITIVE'' < count_list (map label rs) ''NEGATIVE''
      then ''NEGATIVE'' else ''NEUTRAL'')"
    by (cases "rs = []")
      (simp_all add: calculate_overall_sentiment_def Let_def count_label_count_list)
  have tie: "overall_sentiment (calculate_overall_sentiment
        [\<lparr>label = ''POSITIVE'', score = 0.9\<rparr>, \<lparr>label = ''NEGATIVE'', score = 0.8\<rparr>,
         \<lparr>label = ''POSITIVE'', score = 0.7\<rparr>, \<lparr>label = ''NEGATIVE'', score = 0.6\<rparr>,
         \<lparr>label = ''POSITIVE'', score = 0.5\<rparr>, \<lparr>label = ''NEGATIVE'', score = 0.4\<rparr>])
       = ''NEUTRAL''"
    by (simp add: calculate_overall_sentiment_def Let_def count_label_def)
  have dash: "fst (sentiment_overview tie_break rs) \<in> set (map (\<lambda>r. title_case (label r)) rs)
        \<and> (\<forall>w. count_list (map (\<lambda>r. title_case (label r)) rs) w
                 \<le> count_list (map (\<lambda>r. title_case (label r)) rs)
                      (fst (sentiment_overview tie_break rs)))
        \<and> (\<forall>l. (\<forall>v. v \<noteq> l \<longrightarrow> count_list (map (\<lambda>r. title_case (label r)) rs) v
                           < count_list (map (\<lambda>r. title_case (label r)) rs) l)
                 \<longrightarrow> fst (sentiment_overview tie_break rs) = l)"
    if "rs \<noteq> []"
      and "tie_break (greatest (value_counts (map (\<lambda>r. title_case (label r)) rs)))
             \<in> set (greatest (value_counts (map (\<lambda>r. title_case (label r)) rs)))"
    using that dashboard_dominant(1) [of rs tie_break]
      dashboard_dominant(2) [of rs tie_break] dashboard_dominant(3) [of rs tie_break]
    by blast
  from bot tie dash show ?thesis by blast
qed

theorem dominant_label_rule_witness:
  "[\<lparr>label = ''POSITIVE'', score = 0.9\<rparr>, \<lparr>label = ''NEUTRAL'', score = 0.5\<rparr>,
    \<lparr>label = ''NEUTRAL'', score = 0.6\<rparr>] \<noteq> []
   \<and> greatest (value_counts (map (\<lambda>r. title_case (label r))
        [\<lparr>label = ''POSITIVE'', score = 0.9\<rparr>, \<lparr>label = ''NEUTRAL'', score = 0.5\<rparr>,
         \<lparr>label = ''NEUTRAL'', score = 0.6\<rparr>])) = [''Neutral'']
   \<and> hd [''Neutral''] \<in> set [''Neutral'']
   \<and> fst (sentiment_overview hd
        [\<lparr>label = ''POSITIVE'', score = 0.9\<rparr>, \<lparr>label = ''NEUTRAL'', score = 0.5\<rparr>,
         \<lparr>label = ''NEUTRAL'', score = 0.6\<rparr>]) = ''Neutral''
   \<and> overall_sentiment (calculate_overall_sentiment
        [\<lparr>label = ''POSITIVE'', score = 0.9\<rparr>, \<lparr>label = ''NEUTRAL'', score = 0.5\<rparr>,
         \<lparr>label = ''NEUTRAL'', score = 0.6\<rparr>]) = ''POSITIVE''"
  using dominant_label_rule
    [of "[\<lparr>label = ''POSITIVE'', score = 0.9\<rparr>, \<lparr>label = ''NEUTRAL'', score = 0.5\<rparr>,
          \<lparr>label = ''NEUTRAL'', score = 0.6\<rparr>]" hd]
  by (simp add: calculate_overall_sentiment_def count_label_def overview_evaluation)

text \<open>
  Claim C4.  For every sequence of classified articles (each label one of POSITIVE,
  NEGATIVE, NEUTRAL, each confidence between 0 and 1, as the data model defines a
  classified article) the three counts add up to the total, the total is the length of the
  sequence, and the average confidence is the arithmetic mean of all confidences whatever
  their label, lies between 0 and 1, and is 0 for the empty sequence.
\<close>

theorem aggregate_invariants:
  assumes "\<forall>r \<in> set rs. label r \<in> {''POSITIVE'', ''NEGATIVE'', ''NEUTRAL''}"
    and "\<forall>r \<in> set rs. 0 \<le> score r \<and> score r \<le> 1"
  shows "positive_count (calculate_overall_sentiment rs)
           + negative_count (calculate_overall_sentiment rs)
           + neutral_count (calculate_overall_sentiment rs)
           = total_articles (calculate_overall_sentiment rs)
         \<and> total_articles (calculate_overall_sentiment rs) = length rs
         \<and> 0 \<le> confidence (calculate_overall_sentiment rs)
         \<and> confidence (calculate_overall_sentiment rs) \<le> 1
         \<and> confidence (calculate_overall_sentiment rs)
             = (if length rs = 0 then 0 else sum_list (map score rs) / real (length rs))"
proof (cases "rs = []")
  case True
  then show ?thesis by (simp add: calculate_overall_sentiment_def)
next
  case False
  with count_label_sum [OF assms(1)] mean_bounds [OF assms(2) False] show ?thesis
    by (simp add: calculate_overall_sentiment_def Let_def)
qed

theorem aggregate_invariants_witness:
  "set (map label
       [\<lparr>label = ''POSITIVE'', score = 0.9\<rparr>, \<lparr>label = ''POSITIVE'', score = 0.8\<rparr>,
        \<lparr>label = ''NEGATIVE'', score = 0.7\<rparr>, \<lparr>label = ''NEUTRAL'', score = 0.5\<rparr>,
        \<lparr>label = ''NEUTRAL'', score = 0.6\<rparr>]) \<subseteq> {''POSITIVE'', ''NEGATIVE'', ''NEUTRAL''}
   \<and> list_all (\<lambda>r. 0 \<le> score r \<and> score r \<le> 1)
       [\<lparr>label = ''POSITIVE'', score = 0.9\<rparr>, \<lparr>label = ''POSITIVE'', score = 0.8\<rparr>,
        \<lparr>label = ''NEGATIVE'', score = 0.7\<rparr>, \<lparr>label = ''NEUTRAL'', score = 0.5\<rparr>,
        \<lparr>label = ''NEUTRAL'', score = 0.6\<rparr>]
   \<and> calculate_overall_sentiment
       [\<lparr>label = ''POSITIVE'', score = 0.9\<rparr>, \<lparr>label = ''POSITIVE'', score = 0.8\<rparr>,
        \<lparr>label = ''NEGATIVE'', score = 0.7\<rparr>, \<lparr>label = ''NEUTRAL'', score = 0.5\<rparr>,
        \<lparr>label = ''NEUTRAL'', score = 0.6\<rparr>]
       = \<lparr>overall_sentiment = ''POSITIVE'', confidence = 0.7,
          positive_count = 2, negative_count = 1, neutral_count = 2, total_articles = 5\<rparr>
   \<and> (2::nat) + 1 + 2 = 5 \<and> (0::real) \<le> 0.7 \<and> (0.7::real) \<le> 1"
  using aggregate_invariants
    [of "[\<lparr>label = ''POSITIVE'', score = 0.9\<rparr>, \<lparr>label = ''POSITIVE'', score = 0.8\<rparr>,
          \<lparr>label = ''NEGATIVE'', score = 0.7\<rparr>, \<lparr>label = ''NEUTRAL'', score = 0.5\<rparr>,
          \<lparr>label = ''NEUTRAL'', score = 0.6\<rparr>]"]
  by (simp add: calculate_overall_sentiment_def Let_def count_label_def)

text \<open>
  Claim C8, evaluated where the code departs from it.  The bot has fetched one article and
  the model handle is \<^verbatim>\<open>None\<close> (loading the model failed), or the call of the model raises:
  \<^verbatim>\<open>analyze_sentiment\<close> returns \<^verbatim>\<open>[]\<close>, \<^verbatim>\<open>calculate_overall_sentiment\<close> returns the record with
  total 0, and the percentages of the result message divide by that total:
  ZeroDivisionError, which the handler turns into its error reply.
\<close>

theorem percentages_divide_by_zero:
  "calculate_overall_sentiment []
     = \<lparr>overall_sentiment = ''NEUTRAL'', confidence = 0,
        positive_count = 0, negative_count = 0, neutral_count = 0, total_articles = 0\<rparr>
   \<and> breakdown (calculate_overall_sentiment []) = Inl ZeroDivisionError
   \<and> analyze_articles None
       [\<lparr>title = ''Acme soars'', description = [], url = [], publishedAt = [],
         source_name = ''Finnhub''\<rparr>]
       = (ErrorReply ZeroDivisionError, [])
   \<and> analyze_articles (Some (\<lambda>hs. Inl ExternalError))
       [\<lparr>title = ''Acme soars'', description = [], url = [], publishedAt = [],
         source_name = ''Finnhub''\<rparr>]
       = (ErrorReply ZeroDivisionError, [Classify [''Acme soars'']])"
  by (simp add: analyze_articles_def bot_analyze_sentiment_def calculate_overall_sentiment_def
      breakdown_def percentage_def truediv_def)

section \<open>Properties of the exemplar selection\<close>

lemma foldl_larger_first_max:
  "\<exists>i < length (x # xs).
      foldl larger x xs = (x # xs) ! i
      \<and> (\<forall>j < length (x # xs). row_confidence ((x # xs) ! j) \<le> row_confidence ((x # xs) ! i))
      \<and> (\<forall>j < i. row_confidence ((x # xs) ! j) < row_confidence ((x # xs) ! i))"
proof (induction xs rule: rev_induct)
  case Nil
  show ?case by simp
next
  case (snoc y ys)
  then obtain i where i: "i < length (x # ys)"
    and m: "foldl larger x ys = (x # ys) ! i"
    and ge: "\<forall>j < length (x # ys). row_confidence ((x # ys) ! j) \<le> row_confidence ((x # ys) ! i)"
    and first: "\<forall>j < i. row_confidence ((x # ys) ! j) < row_confidence ((x # ys) ! i)"
    by blast
  let ?zs = "x # ys @ [y]"
  have old: "\<And>j. j < length (x # ys) \<Longrightarrow> ?zs ! j = (x # ys) ! j"
    by (metis append_Cons nth_append)
  have new: "?zs ! length (x # ys) = y"
    by (metis append_Cons nth_append_length)
  show ?case
  proof (cases "row_confidence ((x # ys) ! i) < row_confidence y")
    case True
    have "foldl larger x (ys @ [y]) = ?zs ! length (x # ys)"
      using True m new by (simp add: larger_def)
    moreover have "\<forall>j < length ?zs. row_confidence (?zs ! j) \<le> row_confidence (?zs ! length (x # ys))"
    proof (intro allI impI)
      fix j assume "j < length ?zs"
      then consider "j < length (x # ys)" | "j = length (x # ys)" by fastforce
      then show "row_confidence (?zs ! j) \<le> row_confidence (?zs ! length (x # ys))"
      proof cases
        case 1
        with ge have "row_confidence ((x # ys) ! j) \<le> row_confidence ((x # ys) ! i)" by blast
        with True old [OF 1] new show ?thesis by simp
      next
        case 2
        then show ?thesis by simp
      qed
    qed
    moreover have "\<forall>j < length (x # ys). row_confidence (?zs ! j) < row_confidence (?zs ! length (x # ys))"
    proof (intro allI impI)
      fix j assume j: "j < length (x # ys)"
      with ge have "row_confidence ((x # ys) ! j) \<le> row_confidence ((x # ys) ! i)" by blast
      with True old [OF j] new show "row_confidence (?zs ! j) < row_confidence (?zs ! length (x # ys))"
        by simp
    qed
    ultimately show ?thesis
      by (intro exI [of _ "length (x # ys)"]) simp
  next
    case False
    have "foldl larger x (ys @ [y]) = ?zs ! i"
      using False m old [OF i] by (simp add: larger_def)
    moreover have "\<forall>j < length ?zs. row_confidence (?zs ! j) \<le> row_confidence (?zs ! i)"
    proof (intro allI impI)
      fix j assume "j < length ?zs"
      then consider "j < length (x # ys)" | "j = length (x # ys)" by fastforce
      then show "row_confidence (?zs ! j) \<le> row_confidence (?zs ! i)"
      proof cases
        case 1
        with ge have "row_confidence ((x # ys) ! j) \<le> row_confidence ((x # ys) ! i)" by blast
        with old [OF 1] old [OF i] show ?thesis by simp
      next
        case 2
        with False new old [OF i] show ?thesis by simp
      qed
    qed
    moreover have "\<forall>j < i. row_confidence (?zs ! j) < row_confidence (?zs ! i)"
    proof (intro allI impI)
      fix j assume j: "j < i"
      with i have j': "j < length (x # ys)" by simp
      from first j have "row_confidence ((x # ys) ! j) < row_confidence ((x # ys) ! i)" by blast
      with old [OF j'] old [OF i] show "row_confidence (?zs ! j) < row_confidence (?zs ! i)" by simp
    qed
    moreover from i have "i < length ?zs" by simp
    ultimately show ?thesis by blast
  qed
qed

text \<open>
  The selection rule on a frame with at least one row, rows in fetch order: when no row
  has the label (POSITIVE, respectively NEGATIVE) the exemplar is null; otherwise it is the
  row of that label with the highest confidence, and among rows of equal highest confidence
  the earliest one, every earlier row of the label having a strictly smaller confidence.
\<close>

theorem top_exemplar:
  assumes "df \<noteq> []"
  shows "(filter (\<lambda>r. sentiment r = l) df = [] \<longrightarrow> most_confident l df = Inr None)
       \<and> (filter (\<lambda>r. sentiment r = l) df \<noteq> [] \<longrightarrow>
            (\<exists>i < length (filter (\<lambda>r. sentiment r = l) df).
               most_confident l df = Inr (Some (filter (\<lambda>r. sentiment r = l) df ! i))
               \<and> (\<forall>j < length (filter (\<lambda>r. sentiment r = l) df).
                     row_confidence (filter (\<lambda>r. sentiment r = l) df ! j)
                       \<le> row_confidence (filter (\<lambda>r. sentiment r = l) df ! i))
               \<and> (\<forall>j < i. row_confidence (filter (\<lambda>r. sentiment r = l) df ! j)
                       < row_confidence (filter (\<lambda>r. sentiment r = l) df ! i))))"
proof (cases "filter (\<lambda>r. sentiment r = l) df")
  case Nil
  with assms show ?thesis by (simp add: most_confident_def with_sentiment_def)
next
  case (Cons x xs)
  with assms have "most_confident l df = Inr (Some (foldl larger x xs))"
    by (simp add: most_confident_def with_sentiment_def)
  with foldl_larger_first_max [of x xs] Cons show ?thesis by simp
qed

theorem top_exemplar_witness:
  "DataFrame
     [\<lparr>title = ''A'', description = [], url = [], publishedAt = [], source_name = ''s''\<rparr>,
      \<lparr>title = ''B'', description = [], url = [], publishedAt = [], source_name = ''s''\<rparr>,
      \<lparr>title = ''C'', description = [], url = [], publishedAt = [], source_name = ''s''\<rparr>]
     [\<lparr>label = ''POSITIVE'', score = 0.6\<rparr>, \<lparr>label = ''POSITIVE'', score = 0.9\<rparr>,
      \<lparr>label = ''POSITIVE'', score = 0.9\<rparr>] \<noteq> []
   \<and> most_confident ''POSITIVE''
       (DataFrame
          [\<lparr>title = ''A'', description = [], url = [], publishedAt = [], source_name = ''s''\<rparr>,
           \<lparr>title = ''B'', description = [], url = [], publishedAt = [], source_name = ''s''\<rparr>,
           \<lparr>title = ''C'', description = [], url = [], publishedAt = [], source_name = ''s''\<rparr>]
          [\<lparr>label = ''POSITIVE'', score = 0.6\<rparr>, \<lparr>label = ''POSITIVE'', score = 0.9\<rparr>,
           \<lparr>label = ''POSITIVE'', score = 0.9\<rparr>])
       = Inr (Some \<lparr>headline = ''B'', sentiment = ''POSITIVE'', row_confidence = 0.9\<rparr>)
   \<and> most_confident ''NEGATIVE''
       (DataFrame
          [\<lparr>title = ''A'', description = [], url = [], publishedAt = [], source_name = ''s''\<rparr>,
           \<lparr>title = ''B'', description = [], url = [], publishedAt = [], source_name = ''s''\<rparr>,
           \<lparr>title = ''C'', description = [], url = [], publishedAt = [], source_name = ''s''\<rparr>]
          [\<lparr>label = ''POSITIVE'', score = 0.6\<rparr>, \<lparr>label = ''POSITIVE'', score = 0.9\<rparr>,
           \<lparr>label = ''POSITIVE'', score = 0.9\<rparr>])
       = Inr None"
  using top_exemplar
    [of "DataFrame
          [\<lparr>title = ''A'', description = [], url = [], publishedAt = [], source_name = ''s''\<rparr>,
           \<lparr>title = ''B'', description = [], url = [], publishedAt = [], source_name = ''s''\<rparr>,
           \<lparr>title = ''C'', description = [], url = [], publishedAt = [], source_name = ''s''\<rparr>]
          [\<lparr>label = ''POSITIVE'', score = 0.6\<rparr>, \<lparr>label = ''POSITIVE'', score = 0.9\<rparr>,
           \<lparr>label = ''POSITIVE'', score = 0.9\<rparr>]" "''NEGATIVE''"]
    top_exemplar
    [of "DataFrame
          [\<lparr>title = ''A'', description = [], url = [], publishedAt = [], source_name = ''s''\<rparr>,
           \<lparr>title = ''B'', description = [], url = [], publishedAt = [], source_name = ''s''\<rparr>,
           \<lparr>title = ''C'', description = [], url = [], publishedAt = [], source_name = ''s''\<rparr>]
          [\<lparr>label = ''POSITIVE'', score = 0.6\<rparr>, \<lparr>label = ''POSITIVE'', score = 0.9\<rparr>,
           \<lparr>label = ''POSITIVE'', score = 0.9\<rparr>]" "''POSITIVE''"]
  by (simp add: most_confident_def with_sentiment_def DataFrame_def larger_def)

text \<open>
  Claim C6, evaluated where the code departs from it.  Two articles were fetched and the
  model handle is \<^verbatim>\<open>None\<close>, so the classified sequence is empty and neither label has an
  article: the claim promises null exemplars.  The handler raises ZeroDivisionError in the
  percentages of its message, before the frame is built, and answers with its error reply;
  no exemplar, null or not, is reported.
\<close>

theorem exemplars_not_reached:
  "bot_analyze_sentiment None [''Acme soars'', ''Acme dips''] = ([], [])
   \<and> count_label ''POSITIVE'' [] = 0
   \<and> count_label ''NEGATIVE'' [] = 0
   \<and> analyze_articles None
       [\<lparr>title = ''Acme soars'', description = [], url = [], publishedAt = [],
         source_name = ''Finnhub''\<rparr>,
        \<lparr>title = ''Acme dips'', description = [], url = [], publishedAt = [],
         source_name = ''Finnhub''\<rparr>]
       = (ErrorReply ZeroDivisionError, [])"
  by (simp add: analyze_articles_def bot_analyze_sentiment_def calculate_overall_sentiment_def
      breakdown_def percentage_def truediv_def count_label_def)


section \<open>Properties of the symbol resolver and the news fetcher\<close>

lemmas example_providers =
  epoch_iso_def news_item_def no_match_finnhub_def failing_lookup_finnhub_def gappy_finnhub_def














lemma no_common_stock_no_us_stock:
  "filter is_common_stock results = [] \<Longrightarrow> us_stocks results = []"
  by (induction results) (auto simp: us_stocks_def split: if_splits)

lemma get_company_symbol_unresolved:
  assumes "(\<exists>e. symbol_lookup c company = Inl e) \<or> symbol_lookup c company = Inr None
       \<or> (\<exists>results. symbol_lookup c company = Inr (Some results)
             \<and> filter is_common_stock results = [])"
  shows "get_company_symbol (Some c) company = (None, [SymbolLookup company])"
    and "bot_get_company_symbol (Some c) company = (company, [SymbolLookup company])"
  using assms no_common_stock_no_us_stock
  by (auto simp: get_company_symbol_def bot_get_company_symbol_def)

lemma bot_fetch_news_finnhub_calls:
  "snd (bot_fetch_news_finnhub isoformat (Some c) symb d) = [CompanyNews symb d]"
  by (simp add: bot_fetch_news_finnhub_def split: sum.splits)

text \<open>
  Claim C3, as the specification states it: an unresolved symbol gives a result without
  articles, marked with a reason code, and no fetch under a substitute identifier.  In the
  bot the symbol search for \<^verbatim>\<open>Acme\<close> finds nothing, \<^verbatim>\<open>get_company_symbol\<close> answers with the
  company name, and the fetch goes on with that name as the symbol and returns an article.
\<close>

theorem unresolved_symbol_counterexample:
  "symbol_lookup no_match_finnhub ''Acme'' = Inr (Some [])
   \<and> bot_get_company_symbol (Some no_match_finnhub) ''Acme'' = (''Acme'', [SymbolLookup ''Acme''])
   \<and> bot_fetch epoch_iso (Some no_match_finnhub) None ''Acme''
       = (([\<lparr>title = ''Acme soars'', description = [], url = [],
             publishedAt = ''1970-01-01T00:00:00'', source_name = ''Finnhub''\<rparr>], ''Finnhub''),
          [SymbolLookup ''Acme'', CompanyNews ''Acme'' 7])"
  by (simp add: bot_fetch_def any_word_in_def indian_companies_def case_conversion
      bot_get_company_symbol_def bot_fetch_news_finnhub_def us_stocks_def truthy_def
      get_or_def example_providers)

text \<open>
  Claim C3, amended.  When the symbol search for a request routed to Finnhub raises,
  answers without a result list, or lists no common stock: the dashboard's \<^verbatim>\<open>fetch_news\<close>
  returns the empty list (the bare list, no reason code) after the one symbol search,
  calling neither \<^verbatim>\<open>company_news\<close> nor NewsAPI; the bot's \<^verbatim>\<open>get_company_symbol\<close> returns the
  company name itself, and the bot, for a name outside its list of Indian companies,
  then asks Finnhub for the news of that name and does not call NewsAPI.
\<close>

theorem unresolved_symbol:
  assumes "(\<exists>e. symbol_lookup c company = Inl e) \<or> symbol_lookup c company = Inr None
       \<or> (\<exists>results. symbol_lookup c company = Inr (Some results)
             \<and> filter is_common_stock results = [])"
  shows "fetch_news isoformat (Some c) newsapi company n ''finnhub'' d
           = ([], [SymbolLookup company])
       \<and> bot_get_company_symbol (Some c) company = (company, [SymbolLookup company])
       \<and> (\<not> any_word_in indian_companies company \<longrightarrow>
            snd (bot_fetch isoformat (Some c) newsapi company)
              = [SymbolLookup company, CompanyNews company 7])"
proof -
  note r = get_company_symbol_unresolved [OF assms]
  have "fetch_news isoformat (Some c) newsapi company n ''finnhub'' d
           = ([], [SymbolLookup company])"
    by (simp add: fetch_news_def r(1) truthy_def)
  moreover have "snd (bot_fetch isoformat (Some c) newsapi company)
              = [SymbolLookup company, CompanyNews company 7]"
    if "\<not> any_word_in indian_companies company"
    using that bot_fetch_news_finnhub_calls [of isoformat c company 7]
    by (auto simp: bot_fetch_def r(2) split: prod.splits)
  ultimately show ?thesis using r(2) by blast
qed

theorem unresolved_symbol_witness:
  "symbol_lookup failing_lookup_finnhub ''Acme'' = Inl ExternalError
   \<and> \<not> any_word_in indian_companies ''Acme''
   \<and> fetch_news epoch_iso (Some failing_lookup_finnhub) None ''Acme'' 20 ''finnhub'' 7
       = ([], [SymbolLookup ''Acme''])
   \<and> bot_get_company_symbol (Some failing_lookup_finnhub) ''Acme''
       = (''Acme'', [SymbolLookup ''Acme''])
   \<and> snd (bot_fetch epoch_iso (Some failing_lookup_finnhub) None ''Acme'')
       = [SymbolLookup ''Acme'', CompanyNews ''Acme'' 7]"
  using unresolved_symbol [of failing_lookup_finnhub "''Acme''" epoch_iso None 20 7]
  by (simp add: any_word_in_def indian_companies_def case_conversion example_providers)

end
